theory Spec2Isabelle
  imports Complex_Main
begin

section \<open>Python values and the three coercions the sensor platform uses\<close>

text \<open>
  The extraction methods of \<^verbatim>\<open>sensor.py\<close> take \<^verbatim>\<open>data: Any\<close>, read one attribute of
  it and pass the attribute to \<^verbatim>\<open>str\<close>, \<^verbatim>\<open>int\<close> or \<^verbatim>\<open>float\<close>. The attribute values
  considered are the scalars a charger status can hold: \<^verbatim>\<open>None\<close>, booleans, integers,
  floats and strings.

  A finite float is represented by the real number it denotes; the source performs no
  floating-point arithmetic. Formatting a float and parsing a number out of a string are
  not computed: a float value carries the text \<^verbatim>\<open>str\<close> gives for it, and a string value
  carries what the \<^verbatim>\<open>int\<close> and \<^verbatim>\<open>float\<close> parsers make of it (\<open>None\<close> where the parser
  rejects the string with \<^verbatim>\<open>ValueError\<close>).
\<close>

datatype py_error = AttributeError | KeyError | TypeError | ValueError | OverflowError

datatype pyfloat = Finite real | PosInf | NegInf | NaN

datatype pyval =
    PNone
  | PBool bool
  | PInt int
  | PFloat pyfloat string
  | PStr string "int option" "pyfloat option"

text \<open>What \<^verbatim>\<open>get_native_value\<close> returns: \<^verbatim>\<open>float | str | int | None\<close>.\<close>

datatype native = NoneV | StrV string | IntV int | FloatV pyfloat

datatype native_type = TNone | TStr | TInt | TFloat

fun type_of :: "native \<Rightarrow> native_type" where
  "type_of NoneV = TNone"
| "type_of (StrV s) = TStr"
| "type_of (IntV i) = TInt"
| "type_of (FloatV f) = TFloat"

text \<open>Sequencing of computations that may raise: the first exception wins.\<close>

fun bindE :: "py_error + 'a \<Rightarrow> ('a \<Rightarrow> py_error + 'b) \<Rightarrow> py_error + 'b" where
  "bindE (Inl e) f = Inl e"
| "bindE (Inr v) f = f v"

fun mapME :: "('a \<Rightarrow> py_error + 'b) \<Rightarrow> 'a list \<Rightarrow> py_error + 'b list" where
  "mapME f [] = Inr []"
| "mapME f (x # xs) = bindE (f x) (\<lambda>y. bindE (mapME f xs) (\<lambda>ys. Inr (y # ys)))"

subsection \<open>\<^verbatim>\<open>str(x)\<close>\<close>

definition digit_char :: "int \<Rightarrow> char" where
  "digit_char d = char_of (48 + d)"

function decimal :: "int \<Rightarrow> string" where
  "decimal n = (if n < 10 then [digit_char n] else decimal (n div 10) @ [digit_char (n mod 10)])"
  by pat_completeness auto
termination
  by (relation "measure nat") auto

declare decimal.simps [simp del]

definition str_of_int :: "int \<Rightarrow> string" where
  "str_of_int i = (if i < 0 then CHR ''-'' # decimal (- i) else decimal i)"

fun py_str :: "pyval \<Rightarrow> string" where
  "py_str PNone = ''None''"
| "py_str (PBool b) = (if b then ''True'' else ''False'')"
| "py_str (PInt i) = str_of_int i"
| "py_str (PFloat f r) = r"
| "py_str (PStr s ip fp) = s"

subsection \<open>\<^verbatim>\<open>int(x)\<close>\<close>

text \<open>A float is truncated towards zero; \<^verbatim>\<open>nan\<close> and the infinities are refused.\<close>

definition trunc :: "real \<Rightarrow> int" where
  "trunc r = (if r < 0 then - \<lfloor>- r\<rfloor> else \<lfloor>r\<rfloor>)"

fun py_int :: "pyval \<Rightarrow> py_error + int" where
  "py_int PNone = Inl TypeError"
| "py_int (PBool b) = Inr (if b then 1 else 0)"
| "py_int (PInt i) = Inr i"
| "py_int (PFloat (Finite r) _) = Inr (trunc r)"
| "py_int (PFloat NaN _) = Inl ValueError"
| "py_int (PFloat PosInf _) = Inl OverflowError"
| "py_int (PFloat NegInf _) = Inl OverflowError"
| "py_int (PStr s ip fp) = (case ip of None \<Rightarrow> Inl ValueError | Some i \<Rightarrow> Inr i)"

subsection \<open>\<^verbatim>\<open>float(x)\<close>\<close>

text \<open>
  An integer is rounded to the nearest double (53 bits of mantissa, ties to even);
  \<^verbatim>\<open>OverflowError\<close> when the rounded value does not fit.
\<close>

function bit_length :: "int \<Rightarrow> nat" where
  "bit_length n = (if n \<le> 0 then 0 else Suc (bit_length (n div 2)))"
  by pat_completeness auto
termination
  by (relation "measure nat") auto

declare bit_length.simps [simp del]

definition float_of_int :: "int \<Rightarrow> py_error + pyfloat" where
  "float_of_int i =
     (let a = \<bar>i\<bar>; n = bit_length a in
      if n \<le> 53 then Inr (Finite (of_int i))
      else
        let e = n - 53;
            q = a div 2 ^ e;
            r = a mod 2 ^ e;
            h = 2 ^ (e - 1);
            m = (if h < r \<or> (r = h \<and> odd q) then q + 1 else q);
            v = m * 2 ^ e
        in if 2 ^ 1024 \<le> v then Inl OverflowError
           else Inr (Finite (of_int (sgn i * v))))"

fun py_float :: "pyval \<Rightarrow> py_error + pyfloat" where
  "py_float PNone = Inl TypeError"
| "py_float (PBool b) = Inr (Finite (if b then 1 else 0))"
| "py_float (PInt i) = float_of_int i"
| "py_float (PFloat f r) = Inr f"
| "py_float (PStr s ip fp) = (case fp of None \<Rightarrow> Inl ValueError | Some f \<Rightarrow> Inr f)"

section \<open>The device snapshot\<close>

text \<open>
  \<^verbatim>\<open>coordinator.data\<close> is an object read by attribute name. It is a finite map from
  attribute names to values; reading an attribute the object does not have raises
  \<^verbatim>\<open>AttributeError\<close>. A coordinator that holds no snapshot yet (\<^verbatim>\<open>data is None\<close>) is
  the empty map: \<^verbatim>\<open>None\<close> has none of the attributes read here.
\<close>

type_synonym snapshot = "string \<rightharpoonup> pyval"

definition getattr :: "snapshot \<Rightarrow> string \<Rightarrow> py_error + pyval" where
  "getattr obj a = (case obj a of None \<Rightarrow> Inl AttributeError | Some v \<Rightarrow> Inr v)"

definition getitem :: "('k \<rightharpoonup> 'v) \<Rightarrow> 'k \<Rightarrow> py_error + 'v" where
  "getitem m k = (case m k of None \<Rightarrow> Inl KeyError | Some v \<Rightarrow> Inr v)"

section \<open>Entity descriptions\<close>

text \<open>
  One constructor per description class of the module; \<open>LektricoSensorEntityDescription\<close>
  is the base class.
\<close>

datatype sensor_class =
    LektricoSensorEntityDescription
  | ChargerStateSensorEntityDescription
  | ChargingTimeSensorEntityDescription
  | CurrentSensorEntityDescription
  | InstantPowerSensorEntityDescription
  | SessionEnergySensorEntityDescription
  | TemperatureSensorEntityDescription
  | TotalChargedEnergySensorEntityDescription
  | VoltageSensorEntityDescription
  | InstallCurrentSensorEntityDescription
  | DynamicCurrentSensorEntityDescription
  | LedMaxBrightnessSensorEntityDescription

text \<open>
  The class method \<^verbatim>\<open>get_native_value(cls, data)\<close>, dispatched on the class. The base
  class returns \<^verbatim>\<open>None\<close>; every subclass reads one attribute and coerces it.
\<close>

fun get_native_value :: "sensor_class \<Rightarrow> snapshot \<Rightarrow> py_error + native" where
  "get_native_value LektricoSensorEntityDescription data = Inr NoneV"
| "get_native_value ChargerStateSensorEntityDescription data =
     bindE (getattr data ''charger_state'') (\<lambda>v. Inr (StrV (py_str v)))"
| "get_native_value ChargingTimeSensorEntityDescription data =
     bindE (getattr data ''charging_time'') (\<lambda>v. bindE (py_int v) (\<lambda>i. Inr (IntV i)))"
| "get_native_value CurrentSensorEntityDescription data =
     bindE (getattr data ''current'') (\<lambda>v. bindE (py_float v) (\<lambda>f. Inr (FloatV f)))"
| "get_native_value InstantPowerSensorEntityDescription data =
     bindE (getattr data ''instant_power'') (\<lambda>v. bindE (py_float v) (\<lambda>f. Inr (FloatV f)))"
| "get_native_value SessionEnergySensorEntityDescription data =
     bindE (getattr data ''session_energy'') (\<lambda>v. bindE (py_float v) (\<lambda>f. Inr (FloatV f)))"
| "get_native_value TemperatureSensorEntityDescription data =
     bindE (getattr data ''temperature'') (\<lambda>v. bindE (py_float v) (\<lambda>f. Inr (FloatV f)))"
| "get_native_value TotalChargedEnergySensorEntityDescription data =
     bindE (getattr data ''total_charged_energy'') (\<lambda>v. bindE (py_int v) (\<lambda>i. Inr (IntV i)))"
| "get_native_value VoltageSensorEntityDescription data =
     bindE (getattr data ''voltage'') (\<lambda>v. bindE (py_float v) (\<lambda>f. Inr (FloatV f)))"
| "get_native_value InstallCurrentSensorEntityDescription data =
     bindE (getattr data ''install_current'') (\<lambda>v. bindE (py_int v) (\<lambda>i. Inr (IntV i)))"
| "get_native_value DynamicCurrentSensorEntityDescription data =
     bindE (getattr data ''dynamic_current'') (\<lambda>v. bindE (py_int v) (\<lambda>i. Inr (IntV i)))"
| "get_native_value LedMaxBrightnessSensorEntityDescription data =
     bindE (getattr data ''led_max_brightness'') (\<lambda>v. bindE (py_int v) (\<lambda>i. Inr (IntV i)))"

text \<open>
  The constants of \<^verbatim>\<open>homeassistant.const\<close> and the enumerations of
  \<^verbatim>\<open>homeassistant.components.sensor\<close> that the registry names. Only their identity
  matters here, so each is a constructor.
\<close>

datatype unit_of_measurement =
    TIME_SECONDS
  | ELECTRIC_CURRENT_AMPERE
  | ELECTRIC_POTENTIAL_VOLT
  | ENERGY_KILO_WATT_HOUR
  | POWER_KILO_WATT
  | TEMP_CELSIUS

datatype SensorStateClass = MEASUREMENT | TOTAL | TOTAL_INCREASING

datatype SensorDeviceClass = CURRENT | ENERGY | POWER | TEMPERATURE | VOLTAGE

text \<open>
  An entity description: the class it is an instance of and the fields the registry
  sets. The fields a registry entry leaves out keep their default \<^verbatim>\<open>None\<close>.
\<close>

record description =
  cls :: sensor_class
  key :: string
  name :: string
  native_unit_of_measurement :: "unit_of_measurement option"
  state_class :: "SensorStateClass option"
  device_class :: "SensorDeviceClass option"

definition SENSORS :: "description list" where
  "SENSORS =
    [ \<lparr>cls = ChargerStateSensorEntityDescription,
       key = ''charger_state'', name = ''Charger state'',
       native_unit_of_measurement = None, state_class = None, device_class = None\<rparr>,
      \<lparr>cls = ChargingTimeSensorEntityDescription,
       key = ''charging_time'', name = ''Charging time'',
       native_unit_of_measurement = Some TIME_SECONDS,
       state_class = None, device_class = None\<rparr>,
      \<lparr>cls = CurrentSensorEntityDescription,
       key = ''current'', name = ''Current'',
       native_unit_of_measurement = Some ELECTRIC_CURRENT_AMPERE,
       state_class = Some MEASUREMENT, device_class = Some CURRENT\<rparr>,
      \<lparr>cls = InstantPowerSensorEntityDescription,
       key = ''instant_power'', name = ''Instant power'',
       native_unit_of_measurement = Some POWER_KILO_WATT,
       state_class = Some MEASUREMENT, device_class = Some POWER\<rparr>,
      \<lparr>cls = SessionEnergySensorEntityDescription,
       key = ''session_energy'', name = ''Session energy'',
       native_unit_of_measurement = Some ENERGY_KILO_WATT_HOUR,
       state_class = None, device_class = Some ENERGY\<rparr>,
      \<lparr>cls = TemperatureSensorEntityDescription,
       key = ''temperature'', name = ''Temperature'',
       native_unit_of_measurement = Some TEMP_CELSIUS,
       state_class = Some MEASUREMENT, device_class = Some TEMPERATURE\<rparr>,
      \<lparr>cls = TotalChargedEnergySensorEntityDescription,
       key = ''total_charged_energy'', name = ''Total charged energy'',
       native_unit_of_measurement = Some ENERGY_KILO_WATT_HOUR,
       state_class = Some TOTAL_INCREASING, device_class = Some ENERGY\<rparr>,
      \<lparr>cls = VoltageSensorEntityDescription,
       key = ''voltage'', name = ''Voltage'',
       native_unit_of_measurement = Some ELECTRIC_POTENTIAL_VOLT,
       state_class = None, device_class = Some VOLTAGE\<rparr>,
      \<lparr>cls = InstallCurrentSensorEntityDescription,
       key = ''install_current'', name = ''Install current'',
       native_unit_of_measurement = Some ELECTRIC_CURRENT_AMPERE,
       state_class = None, device_class = Some CURRENT\<rparr> ]"

section \<open>The coordinator, the entity and the platform\<close>

text \<open>
  Modelled from the spec: the class \<^verbatim>\<open>LektricoDeviceDataUpdateCoordinator\<close> is imported
  from the package's \<^verbatim>\<open>__init__\<close> module. The spec (section 6) gives what the sensor
  platform reads of it: the current snapshot, the device serial number and the hardware
  board revision. The two identifiers are strings, interpolated into f-strings.
\<close>

record LektricoDeviceDataUpdateCoordinator =
  serial_number :: string
  board_revision :: string
  data :: snapshot

text \<open>
  \<^verbatim>\<open>DeviceInfo\<close>, with the five entries the entity sets. The display name is called
  \<open>device_name\<close> here, \<open>name\<close> being a field of the description. The friendly name and
  the firmware version are stored as they are read, without coercion.
\<close>

record DeviceInfo =
  identifiers :: "(string \<times> string) set"
  model :: string
  device_name :: pyval
  manufacturer :: string
  sw_version :: pyval

text \<open>
  Coordinators are shared, mutable objects: an entity holds a reference to its
  coordinator, not a copy, and reads the snapshot through it. References are addresses
  into a store; the entities the platform has registered are part of the state as well.
\<close>

type_synonym ref = nat

record LektricoSensor =
  entity_description :: description
  coordinator :: ref
  attr_unique_id :: string
  attr_device_info :: DeviceInfo

record world =
  coordinators :: "ref \<Rightarrow> LektricoDeviceDataUpdateCoordinator"
  sensors :: "LektricoSensor list"

text \<open>
  \<^verbatim>\<open>LektricoSensor.__init__\<close>. \<open>DOMAIN\<close> is the constant of the package's \<^verbatim>\<open>const\<close>
  module, taken as a parameter. The only step that can raise is the read of
  \<^verbatim>\<open>coordinator.data.fw_version\<close>.
\<close>

definition LektricoSensor_init ::
  "string \<Rightarrow> world \<Rightarrow> description \<Rightarrow> ref \<Rightarrow> pyval \<Rightarrow> py_error + LektricoSensor" where
  "LektricoSensor_init DOMAIN w description c friendly_name =
     (let co = coordinators w c;
          unique_id = serial_number co @ ''_'' @ key description
      in bindE (getattr (data co) ''fw_version'') (\<lambda>fw_version.
           Inr \<lparr>entity_description = description,
                coordinator = c,
                attr_unique_id = unique_id,
                attr_device_info =
                  \<lparr>identifiers = {(DOMAIN, serial_number co)},
                   model = ''1P7K '' @ serial_number co @ '' rev.'' @ board_revision co,
                   device_name = friendly_name,
                   manufacturer = ''Lektrico'',
                   sw_version = fw_version\<rparr>\<rparr>))"

text \<open>
  The property \<^verbatim>\<open>native_value\<close>: the result of the call and the state after it.
\<close>

definition native_value :: "world \<Rightarrow> LektricoSensor \<Rightarrow> (py_error + native) \<times> world" where
  "native_value w self =
     (get_native_value (cls (entity_description self)) (data (coordinators w (coordinator self))), w)"

text \<open>
  \<^verbatim>\<open>hass.data\<close> maps a domain to the coordinators of its config entries, by entry id;
  a config entry has an id and a data dictionary.
\<close>

record HomeAssistant =
  hass_data :: "string \<rightharpoonup> (string \<rightharpoonup> ref)"

record ConfigEntry =
  entry_id :: string
  entry_data :: "string \<rightharpoonup> pyval"

text \<open>
  \<^verbatim>\<open>async_setup_entry\<close>. \<open>DOMAIN\<close> and \<open>CONF_FRIENDLY_NAME\<close> are imported constants, taken
  as parameters, and \<open>async_add_entities\<close> is the platform's callback. The generator
  handed to the callback builds the entities in the order of \<open>SENSORS\<close>, reading
  \<^verbatim>\<open>entry.data[CONF_FRIENDLY_NAME]\<close> for each; an exception raised while it is consumed
  leaves nothing registered.
\<close>

definition async_setup_entry ::
  "string \<Rightarrow> string \<Rightarrow> world \<Rightarrow> HomeAssistant \<Rightarrow> ConfigEntry \<Rightarrow>
     (LektricoSensor list \<Rightarrow> world \<Rightarrow> world) \<Rightarrow> py_error + world" where
  "async_setup_entry DOMAIN CONF_FRIENDLY_NAME w hass entry async_add_entities =
     bindE (getitem (hass_data hass) DOMAIN) (\<lambda>d.
     bindE (getitem d (entry_id entry)) (\<lambda>c.
     bindE (mapME (\<lambda>description.
              bindE (getitem (entry_data entry) CONF_FRIENDLY_NAME) (\<lambda>friendly_name.
                LektricoSensor_init DOMAIN w description c friendly_name))
            SENSORS) (\<lambda>entities.
     Inr (async_add_entities entities w))))"

text \<open>
  Modelled from the spec: the platform and the refresh source are external. The
  registration callback adds the entities it is handed to the registered ones, in the
  order given; a refresh replaces the snapshot of one coordinator wholesale (section 5);
  the platform reads the value of a registered entity on demand (section 6).
\<close>

definition add_entities :: "LektricoSensor list \<Rightarrow> world \<Rightarrow> world" where
  "add_entities entities w = w\<lparr>sensors := sensors w @ entities\<rparr>"

datatype event = Refresh ref snapshot | Read nat

fun step :: "world \<Rightarrow> event \<Rightarrow> world" where
  "step w (Refresh c s) =
     w\<lparr>coordinators := (coordinators w)(c := (coordinators w c)\<lparr>data := s\<rparr>)\<rparr>"
| "step w (Read i) =
     (if i < length (sensors w) then snd (native_value w (sensors w ! i)) else w)"

fun run :: "world \<Rightarrow> event list \<Rightarrow> world" where
  "run w [] = w"
| "run w (ev # evs) = run (step w ev) evs"

section \<open>Declared types and populated snapshots\<close>

text \<open>
  The return annotation each class gives its \<^verbatim>\<open>get_native_value\<close>, as a list of the
  alternatives of the union.
\<close>

fun return_annotation :: "sensor_class \<Rightarrow> native_type list" where
  "return_annotation LektricoSensorEntityDescription = [TFloat, TStr, TInt, TNone]"
| "return_annotation ChargerStateSensorEntityDescription = [TStr]"
| "return_annotation ChargingTimeSensorEntityDescription = [TInt]"
| "return_annotation CurrentSensorEntityDescription = [TFloat]"
| "return_annotation InstantPowerSensorEntityDescription = [TFloat]"
| "return_annotation SessionEnergySensorEntityDescription = [TFloat]"
| "return_annotation TemperatureSensorEntityDescription = [TFloat]"
| "return_annotation TotalChargedEnergySensorEntityDescription = [TInt]"
| "return_annotation VoltageSensorEntityDescription = [TFloat]"
| "return_annotation InstallCurrentSensorEntityDescription = [TInt]"
| "return_annotation DynamicCurrentSensorEntityDescription = [TInt]"
| "return_annotation LedMaxBrightnessSensorEntityDescription = [TInt]"

text \<open>
  The table of section 4.1 of the specification, by key: the type each data point is
  declared to have there. It is compared with what the code returns.
\<close>

definition spec_declared_type :: "string \<rightharpoonup> native_type" where
  "spec_declared_type = map_of
    [ (''charger_state'', TStr), (''charging_time'', TInt), (''current'', TFloat),
      (''instant_power'', TFloat), (''session_energy'', TFloat), (''temperature'', TFloat),
      (''total_charged_energy'', TInt), (''voltage'', TFloat), (''install_current'', TInt) ]"

text \<open>
  The coercion to a declared type: \<^verbatim>\<open>str(v)\<close>, \<^verbatim>\<open>int(v)\<close> or \<^verbatim>\<open>float(v)\<close>.
\<close>

fun coerce :: "native_type \<Rightarrow> pyval \<Rightarrow> py_error + native" where
  "coerce TStr v = Inr (StrV (py_str v))"
| "coerce TInt v = bindE (py_int v) (\<lambda>i. Inr (IntV i))"
| "coerce TFloat v = bindE (py_float v) (\<lambda>f. Inr (FloatV f))"
| "coerce TNone v = Inr NoneV"

text \<open>
  The content of a value, with nothing computed from it: what a coercion of a value to
  its own type returns.
\<close>

fun payload :: "pyval \<Rightarrow> native option" where
  "payload PNone = Some NoneV"
| "payload (PBool b) = None"
| "payload (PInt i) = Some (IntV i)"
| "payload (PFloat f r) = Some (FloatV f)"
| "payload (PStr s ip fp) = Some (StrV s)"

text \<open>
  A fully populated snapshot has the nine fields of the data model (section 3 of the
  specification), each holding a value of the type given there.
\<close>

fun is_str :: "pyval option \<Rightarrow> bool" where
  "is_str (Some (PStr s ip fp)) = True"
| "is_str _ = False"

fun is_int :: "pyval option \<Rightarrow> bool" where
  "is_int (Some (PInt i)) = True"
| "is_int _ = False"

fun is_float :: "pyval option \<Rightarrow> bool" where
  "is_float (Some (PFloat f r)) = True"
| "is_float _ = False"

definition fully_populated :: "snapshot \<Rightarrow> bool" where
  "fully_populated s \<longleftrightarrow>
     is_str (s ''charger_state'') \<and> is_int (s ''charging_time'') \<and>
     is_float (s ''current'') \<and> is_float (s ''instant_power'') \<and>
     is_float (s ''session_energy'') \<and> is_float (s ''temperature'') \<and>
     is_int (s ''total_charged_energy'') \<and> is_float (s ''voltage'') \<and>
     is_int (s ''install_current'')"

section \<open>Scenarios\<close>

text \<open>
  The snapshot of the scenario of section 8. The float \<^verbatim>\<open>3.68\<close> is the double nearest
  to it, \<^verbatim>\<open>8286623314361713 / 2 ** 51\<close>; the other floats are exact. The string
  \<^verbatim>\<open>"charging"\<close> is no numeric literal.
\<close>

definition scenario_snapshot :: snapshot where
  "scenario_snapshot = map_of
    [ (''charger_state'', PStr ''charging'' None None),
      (''current'', PFloat (Finite 16) ''16.0''),
      (''instant_power'', PFloat (Finite (8286623314361713 / 2 ^ 51)) ''3.68''),
      (''session_energy'', PFloat (Finite 1.25) ''1.25''),
      (''temperature'', PFloat (Finite 34.5) ''34.5''),
      (''total_charged_energy'', PInt 102),
      (''voltage'', PFloat (Finite 230) ''230.0''),
      (''install_current'', PInt 32),
      (''charging_time'', PInt 3600) ]"

definition snapshot_missing_temperature :: snapshot where
  "snapshot_missing_temperature = scenario_snapshot(''temperature'' := None)"

text \<open>
  An installation with two chargers, serial numbers \<^verbatim>\<open>AAA111\<close> and \<^verbatim>\<open>BBB222\<close>, each
  with a config entry; both coordinators hold a first snapshot that carries a firmware
  version next to the nine fields. \<open>upgraded_snapshot\<close> is a later snapshot with another
  firmware version.
\<close>

definition first_snapshot :: snapshot where
  "first_snapshot = scenario_snapshot(''fw_version'' \<mapsto> PStr ''1.4.4'' None None)"

definition upgraded_snapshot :: snapshot where
  "upgraded_snapshot = scenario_snapshot(''fw_version'' \<mapsto> PStr ''1.5.0'' None None)"

definition installation :: world where
  "installation =
     \<lparr>coordinators = (\<lambda>c. if c = 0
         then \<lparr>serial_number = ''AAA111'', board_revision = ''B'', data = first_snapshot\<rparr>
         else \<lparr>serial_number = ''BBB222'', board_revision = ''B'', data = first_snapshot\<rparr>),
      sensors = []\<rparr>"

definition home :: HomeAssistant where
  "home = \<lparr>hass_data = [''lektrico'' \<mapsto> [''entry_a'' \<mapsto> 0, ''entry_b'' \<mapsto> 1]]\<rparr>"

definition entry_a :: ConfigEntry where
  "entry_a = \<lparr>entry_id = ''entry_a'',
              entry_data = [''friendly_name'' \<mapsto> PStr ''Garage'' None None]\<rparr>"

definition entry_b :: ConfigEntry where
  "entry_b = \<lparr>entry_id = ''entry_b'',
              entry_data = [''friendly_name'' \<mapsto> PStr ''Carport'' None None]\<rparr>"

text \<open>
  The entity that the set-up of the first charger builds for a description, and the one
  of the second charger.
\<close>

definition garage_sensor :: "description \<Rightarrow> LektricoSensor" where
  "garage_sensor d =
     \<lparr>entity_description = d, coordinator = 0,
      attr_unique_id = ''AAA111_'' @ key d,
      attr_device_info =
        \<lparr>identifiers = {(''lektrico'', ''AAA111'')},
         model = ''1P7K AAA111 rev.B'',
         device_name = PStr ''Garage'' None None,
         manufacturer = ''Lektrico'',
         sw_version = PStr ''1.4.4'' None None\<rparr>\<rparr>"

definition carport_sensor :: "description \<Rightarrow> LektricoSensor" where
  "carport_sensor d =
     \<lparr>entity_description = d, coordinator = 1,
      attr_unique_id = ''BBB222_'' @ key d,
      attr_device_info =
        \<lparr>identifiers = {(''lektrico'', ''BBB222'')},
         model = ''1P7K BBB222 rev.B'',
         device_name = PStr ''Carport'' None None,
         manufacturer = ''Lektrico'',
         sw_version = PStr ''1.4.4'' None None\<rparr>\<rparr>"

text \<open>
  Setting up the first charger, then the second; and the first charger set up and its
  coordinator then refreshed with the snapshot of the scenario.
\<close>

definition setup_a :: "py_error + world" where
  "setup_a = async_setup_entry ''lektrico'' ''friendly_name'' installation home entry_a add_entities"

definition setup_both :: "py_error + world" where
  "setup_both = bindE setup_a (\<lambda>w.
     async_setup_entry ''lektrico'' ''friendly_name'' w home entry_b add_entities)"

definition scenario_world :: "py_error + world" where
  "scenario_world = bindE setup_a (\<lambda>w. Inr (step w (Refresh 0 scenario_snapshot)))"

text \<open>The entity registered for a key, and what it reads.\<close>

definition sensor_for :: "world \<Rightarrow> string \<Rightarrow> LektricoSensor option" where
  "sensor_for w k = find (\<lambda>e. key (entity_description e) = k) (sensors w)"

definition read_sensor :: "world \<Rightarrow> string \<Rightarrow> (py_error + native) option" where
  "read_sensor w k = map_option (\<lambda>e. fst (native_value w e)) (sensor_for w k)"

text \<open>
  Three entities of the first charger, as its set-up builds them, and an entity of the
  first charger whose description is of the base class, which is no entry of the
  registry.
\<close>

definition charging_time_sensor :: LektricoSensor where
  "charging_time_sensor = garage_sensor (SENSORS ! 1)"

definition current_sensor :: LektricoSensor where
  "current_sensor = garage_sensor (SENSORS ! 2)"

definition temperature_sensor :: LektricoSensor where
  "temperature_sensor = garage_sensor (SENSORS ! 5)"

definition generic_sensor :: LektricoSensor where
  "generic_sensor =
     garage_sensor \<lparr>cls = LektricoSensorEntityDescription, key = ''generic'', name = ''Generic'',
       native_unit_of_measurement = None, state_class = None, device_class = None\<rparr>"

text \<open>
  The installation after the first coordinator was refreshed with the snapshot that
  lacks the temperature; and the installation with the temperature entity registered,
  after a refresh of the first coordinator with the upgraded snapshot and a read.
\<close>

definition degraded_world :: world where
  "degraded_world = step installation (Refresh 0 snapshot_missing_temperature)"

definition upgraded_world :: world where
  "upgraded_world =
     run (add_entities [temperature_sensor] installation) [Refresh 0 upgraded_snapshot, Read 0]"

section \<open>Properties of the model\<close>

subsection \<open>The registry\<close>

lemma set_SENSORS_cases:
  assumes "d \<in> set SENSORS"
  obtains "cls d = ChargerStateSensorEntityDescription" "key d = ''charger_state''"
  | "cls d = ChargingTimeSensorEntityDescription" "key d = ''charging_time''"
  | "cls d = CurrentSensorEntityDescription" "key d = ''current''"
  | "cls d = InstantPowerSensorEntityDescription" "key d = ''instant_power''"
  | "cls d = SessionEnergySensorEntityDescription" "key d = ''session_energy''"
  | "cls d = TemperatureSensorEntityDescription" "key d = ''temperature''"
  | "cls d = TotalChargedEnergySensorEntityDescription" "key d = ''total_charged_energy''"
  | "cls d = VoltageSensorEntityDescription" "key d = ''voltage''"
  | "cls d = InstallCurrentSensorEntityDescription" "key d = ''install_current''"
  using assms unfolding SENSORS_def by auto

lemma keys_distinct: "distinct (map key SENSORS)"
  by (simp add: SENSORS_def)

lemma key_inj: "d1 \<in> set SENSORS \<Longrightarrow> d2 \<in> set SENSORS \<Longrightarrow> key d1 = key d2 \<Longrightarrow> d1 = d2"
  using keys_distinct by (simp add: distinct_map inj_on_def)

subsection \<open>Extraction\<close>

lemma absent_attribute_raises:
  assumes "d \<in> set SENSORS" and "s (key d) = None"
  shows "get_native_value (cls d) s = Inl AttributeError"
  using assms(1)
  by (rule set_SENSORS_cases) (use assms(2) in \<open>simp_all add: getattr_def\<close>)

lemma is_strE: "is_str x \<Longrightarrow> (\<And>s ip fp. x = Some (PStr s ip fp) \<Longrightarrow> P) \<Longrightarrow> P"
  by (cases x rule: is_str.cases) auto

lemma is_intE: "is_int x \<Longrightarrow> (\<And>i. x = Some (PInt i) \<Longrightarrow> P) \<Longrightarrow> P"
  by (cases x rule: is_int.cases) auto

lemma is_floatE: "is_float x \<Longrightarrow> (\<And>f r. x = Some (PFloat f r) \<Longrightarrow> P) \<Longrightarrow> P"
  by (cases x rule: is_float.cases) auto

lemma populated_extraction:
  assumes "d \<in> set SENSORS" and "fully_populated s"
  shows "\<exists>v. get_native_value (cls d) s = Inr v \<and> type_of v \<in> set (return_annotation (cls d))
     \<and> spec_declared_type (key d) = Some (type_of v) \<and> Option.bind (s (key d)) payload = Some v"
  using assms(1)
proof (rule set_SENSORS_cases)
  assume "cls d = ChargerStateSensorEntityDescription" "key d = ''charger_state''"
  moreover from assms(2) have "is_str (s ''charger_state'')" by (simp add: fully_populated_def)
  ultimately show ?thesis
    by (auto elim!: is_strE simp: getattr_def spec_declared_type_def)
next
  assume "cls d = ChargingTimeSensorEntityDescription" "key d = ''charging_time''"
  moreover from assms(2) have "is_int (s ''charging_time'')" by (simp add: fully_populated_def)
  ultimately show ?thesis
    by (auto elim!: is_intE simp: getattr_def spec_declared_type_def)
next
  assume "cls d = CurrentSensorEntityDescription" "key d = ''current''"
  moreover from assms(2) have "is_float (s ''current'')" by (simp add: fully_populated_def)
  ultimately show ?thesis
    by (auto elim!: is_floatE simp: getattr_def spec_declared_type_def)
next
  assume "cls d = InstantPowerSensorEntityDescription" "key d = ''instant_power''"
  moreover from assms(2) have "is_float (s ''instant_power'')" by (simp add: fully_populated_def)
  ultimately show ?thesis
    by (auto elim!: is_floatE simp: getattr_def spec_declared_type_def)
next
  assume "cls d = SessionEnergySensorEntityDescription" "key d = ''session_energy''"
  moreover from assms(2) have "is_float (s ''session_energy'')" by (simp add: fully_populated_def)
  ultimately show ?thesis
    by (auto elim!: is_floatE simp: getattr_def spec_declared_type_def)
next
  assume "cls d = TemperatureSensorEntityDescription" "key d = ''temperature''"
  moreover from assms(2) have "is_float (s ''temperature'')" by (simp add: fully_populated_def)
  ultimately show ?thesis
    by (auto elim!: is_floatE simp: getattr_def spec_declared_type_def)
next
  assume "cls d = TotalChargedEnergySensorEntityDescription" "key d = ''total_charged_energy''"
  moreover from assms(2) have "is_int (s ''total_charged_energy'')" by (simp add: fully_populated_def)
  ultimately show ?thesis
    by (auto elim!: is_intE simp: getattr_def spec_declared_type_def)
next
  assume "cls d = VoltageSensorEntityDescription" "key d = ''voltage''"
  moreover from assms(2) have "is_float (s ''voltage'')" by (simp add: fully_populated_def)
  ultimately show ?thesis
    by (auto elim!: is_floatE simp: getattr_def spec_declared_type_def)
next
  assume "cls d = InstallCurrentSensorEntityDescription" "key d = ''install_current''"
  moreover from assms(2) have "is_int (s ''install_current'')" by (simp add: fully_populated_def)
  ultimately show ?thesis
    by (auto elim!: is_intE simp: getattr_def spec_declared_type_def)
qed

lemma extraction_coerces:
  assumes "d \<in> set SENSORS"
  shows "\<exists>t. spec_declared_type (key d) = Some t \<and> return_annotation (cls d) = [t] \<and>
     get_native_value (cls d) s = bindE (getattr s (key d)) (coerce t)"
  using assms
  by (rule set_SENSORS_cases) (simp_all add: spec_declared_type_def getattr_def split: option.splits)

lemma result_type:
  "get_native_value c s = Inr v \<Longrightarrow> type_of v \<in> set (return_annotation c)"
  by (cases c; cases v) (auto simp: getattr_def split: option.splits sum.splits elim!: bindE.elims)


subsection \<open>Construction and set-up\<close>

lemma init_ok:
  assumes "data (coordinators w c) ''fw_version'' = Some fw"
  shows "LektricoSensor_init DOMAIN w d c friendly_name =
     Inr \<lparr>entity_description = d, coordinator = c,
          attr_unique_id = serial_number (coordinators w c) @ ''_'' @ key d,
          attr_device_info =
            \<lparr>identifiers = {(DOMAIN, serial_number (coordinators w c))},
             model = ''1P7K '' @ serial_number (coordinators w c) @ '' rev.''
                       @ board_revision (coordinators w c),
             device_name = friendly_name,
             manufacturer = ''Lektrico'',
             sw_version = fw\<rparr>\<rparr>"
  using assms by (simp add: LektricoSensor_init_def getattr_def Let_def)

lemma init_Inr:
  assumes "LektricoSensor_init DOMAIN w d c friendly_name = Inr e"
  shows "\<exists>fw. data (coordinators w c) ''fw_version'' = Some fw \<and>
     e = \<lparr>entity_description = d, coordinator = c,
          attr_unique_id = serial_number (coordinators w c) @ ''_'' @ key d,
          attr_device_info =
            \<lparr>identifiers = {(DOMAIN, serial_number (coordinators w c))},
             model = ''1P7K '' @ serial_number (coordinators w c) @ '' rev.''
                       @ board_revision (coordinators w c),
             device_name = friendly_name,
             manufacturer = ''Lektrico'',
             sw_version = fw\<rparr>\<rparr>"
  using assms
  by (cases "data (coordinators w c) ''fw_version''")
     (auto simp: LektricoSensor_init_def getattr_def Let_def)

lemma mapME_map:
  assumes "\<And>x. x \<in> set xs \<Longrightarrow> f x = Inr (g x)"
  shows "mapME f xs = Inr (map g xs)"
  using assms by (induction xs) simp_all

lemma mapME_Inr:
  assumes "mapME f xs = Inr ys"
  shows "list_all2 (\<lambda>x y. f x = Inr y) xs ys"
  using assms
proof (induction xs arbitrary: ys)
  case Nil
  then show ?case by simp
next
  case (Cons x xs)
  from Cons.prems obtain y where y: "f x = Inr y"
    by (cases "f x") simp_all
  with Cons.prems obtain zs where zs: "mapME f xs = Inr zs" and ys: "ys = y # zs"
    by (cases "mapME f xs") auto
  from Cons.IH [OF zs] y ys show ?case by simp
qed

lemma mapME_raises:
  "xs \<noteq> [] \<Longrightarrow> mapME (\<lambda>x. Inl e) xs = Inl e"
  by (cases xs) simp_all

lemma setup_ok:
  assumes "hass_data hass DOMAIN = Some m" and "m (entry_id entry) = Some c"
    and "entry_data entry CONF_FRIENDLY_NAME = Some friendly_name"
    and "data (coordinators w c) ''fw_version'' = Some fw"
  shows "async_setup_entry DOMAIN CONF_FRIENDLY_NAME w hass entry async_add_entities =
     Inr (async_add_entities
       (map (\<lambda>d. \<lparr>entity_description = d, coordinator = c,
          attr_unique_id = serial_number (coordinators w c) @ ''_'' @ key d,
          attr_device_info =
            \<lparr>identifiers = {(DOMAIN, serial_number (coordinators w c))},
             model = ''1P7K '' @ serial_number (coordinators w c) @ '' rev.''
                       @ board_revision (coordinators w c),
             device_name = friendly_name,
             manufacturer = ''Lektrico'',
             sw_version = fw\<rparr>\<rparr>) SENSORS) w)"
proof -
  have "mapME (\<lambda>description.
          bindE (getitem (entry_data entry) CONF_FRIENDLY_NAME) (\<lambda>friendly_name.
            LektricoSensor_init DOMAIN w description c friendly_name)) SENSORS =
        Inr (map (\<lambda>d. \<lparr>entity_description = d, coordinator = c,
          attr_unique_id = serial_number (coordinators w c) @ ''_'' @ key d,
          attr_device_info =
            \<lparr>identifiers = {(DOMAIN, serial_number (coordinators w c))},
             model = ''1P7K '' @ serial_number (coordinators w c) @ '' rev.''
                       @ board_revision (coordinators w c),
             device_name = friendly_name,
             manufacturer = ''Lektrico'',
             sw_version = fw\<rparr>\<rparr>) SENSORS)"
    by (rule mapME_map) (simp add: getitem_def assms(3) init_ok [OF assms(4)])
  then show ?thesis
    by (simp add: async_setup_entry_def getitem_def assms(1,2))
qed

lemma setup_Inr:
  assumes "async_setup_entry DOMAIN CONF_FRIENDLY_NAME w hass entry async_add_entities = Inr w'"
  shows "\<exists>m c friendly_name entities.
     hass_data hass DOMAIN = Some m \<and> m (entry_id entry) = Some c \<and>
     entry_data entry CONF_FRIENDLY_NAME = Some friendly_name \<and>
     list_all2 (\<lambda>d e. LektricoSensor_init DOMAIN w d c friendly_name = Inr e) SENSORS entities \<and>
     w' = async_add_entities entities w"
proof -
  from assms obtain m where m: "hass_data hass DOMAIN = Some m"
    by (cases "hass_data hass DOMAIN") (simp_all add: async_setup_entry_def getitem_def)
  from assms m obtain c where c: "m (entry_id entry) = Some c"
    by (cases "m (entry_id entry)") (simp_all add: async_setup_entry_def getitem_def)
  have ne: "SENSORS \<noteq> []" by (simp add: SENSORS_def)
  let ?f = "\<lambda>description.
          bindE (getitem (entry_data entry) CONF_FRIENDLY_NAME) (\<lambda>friendly_name.
            LektricoSensor_init DOMAIN w description c friendly_name)"
  from assms m c obtain entities where ents: "mapME ?f SENSORS = Inr entities"
    and w': "w' = async_add_entities entities w"
    by (cases "mapME ?f SENSORS") (auto simp: async_setup_entry_def getitem_def)
  obtain friendly_name where n: "entry_data entry CONF_FRIENDLY_NAME = Some friendly_name"
  proof (cases "entry_data entry CONF_FRIENDLY_NAME")
    case None
    with ne have "mapME ?f SENSORS = Inl KeyError"
      by (simp add: getitem_def mapME_raises)
    with ents show ?thesis by simp
  next
    case (Some a)
    with that show ?thesis .
  qed
  from mapME_Inr [OF ents] n
  have "list_all2 (\<lambda>d e. LektricoSensor_init DOMAIN w d c friendly_name = Inr e) SENSORS entities"
    by (simp add: getitem_def)
  with m c n w' show ?thesis by blast
qed

subsection \<open>Refreshes and reads\<close>

lemma run_sensors: "sensors (run w evs) = sensors w"
proof (induction evs arbitrary: w)
  case Nil
  show ?case by simp
next
  case (Cons ev evs)
  have "sensors (step w ev) = sensors w"
    by (cases ev) (simp_all add: native_value_def)
  with Cons.IH [of "step w ev"] show ?case by simp
qed

subsection \<open>The scenarios\<close>

lemma first_snapshot_fw: "first_snapshot ''fw_version'' = Some (PStr ''1.4.4'' None None)"
  by (simp add: first_snapshot_def)

lemma installation_0:
  "coordinators installation 0 =
     \<lparr>serial_number = ''AAA111'', board_revision = ''B'', data = first_snapshot\<rparr>"
  by (simp add: installation_def)

lemma installation_1:
  "coordinators installation (Suc 0) =
     \<lparr>serial_number = ''BBB222'', board_revision = ''B'', data = first_snapshot\<rparr>"
  by (simp add: installation_def)

lemma setup_a_eq: "setup_a = Inr (add_entities (map garage_sensor SENSORS) installation)"
proof -
  have "setup_a = Inr (add_entities
       (map (\<lambda>d. \<lparr>entity_description = d, coordinator = 0,
          attr_unique_id = serial_number (coordinators installation 0) @ ''_'' @ key d,
          attr_device_info =
            \<lparr>identifiers = {(''lektrico'', serial_number (coordinators installation 0))},
             model = ''1P7K '' @ serial_number (coordinators installation 0) @ '' rev.''
                       @ board_revision (coordinators installation 0),
             device_name = PStr ''Garage'' None None,
             manufacturer = ''Lektrico'',
             sw_version = PStr ''1.4.4'' None None\<rparr>\<rparr>) SENSORS) installation)"
    unfolding setup_a_def
    by (rule setup_ok [where m = "[''entry_a'' \<mapsto> 0, ''entry_b'' \<mapsto> 1]"])
       (simp_all add: home_def entry_a_def installation_0 first_snapshot_fw)
  then show ?thesis
    by (simp add: installation_0 garage_sensor_def [abs_def])
qed

lemma setup_both_eq:
  "setup_both = Inr (add_entities (map carport_sensor SENSORS)
                      (add_entities (map garage_sensor SENSORS) installation))"
proof -
  let ?w = "add_entities (map garage_sensor SENSORS) installation"
  have co: "coordinators ?w (Suc 0) =
     \<lparr>serial_number = ''BBB222'', board_revision = ''B'', data = first_snapshot\<rparr>"
    by (simp add: add_entities_def installation_1)
  have "async_setup_entry ''lektrico'' ''friendly_name'' ?w home entry_b add_entities =
     Inr (add_entities
       (map (\<lambda>d. \<lparr>entity_description = d, coordinator = 1,
          attr_unique_id = serial_number (coordinators ?w 1) @ ''_'' @ key d,
          attr_device_info =
            \<lparr>identifiers = {(''lektrico'', serial_number (coordinators ?w 1))},
             model = ''1P7K '' @ serial_number (coordinators ?w 1) @ '' rev.''
                       @ board_revision (coordinators ?w 1),
             device_name = PStr ''Carport'' None None,
             manufacturer = ''Lektrico'',
             sw_version = PStr ''1.4.4'' None None\<rparr>\<rparr>) SENSORS) ?w)"
    by (rule setup_ok [where m = "[''entry_a'' \<mapsto> 0, ''entry_b'' \<mapsto> 1]"])
       (simp_all add: home_def entry_b_def co first_snapshot_fw)
  then show ?thesis
    unfolding setup_both_def setup_a_eq
    by (simp add: co carport_sensor_def [abs_def])
qed

lemma scenario_populated: "fully_populated scenario_snapshot"
  by (simp add: fully_populated_def scenario_snapshot_def)

lemma first_populated: "fully_populated first_snapshot"
  by (simp add: fully_populated_def first_snapshot_def scenario_snapshot_def)

lemma temperature_sensor_simps:
  "entity_description temperature_sensor = SENSORS ! 5"
  "coordinator temperature_sensor = 0"
  "key (SENSORS ! 5) = ''temperature''"
  "cls (SENSORS ! 5) = TemperatureSensorEntityDescription"
  "SENSORS ! 5 \<in> set SENSORS"
  by (simp_all add: temperature_sensor_def garage_sensor_def SENSORS_def)

lemma degraded_world_data:
  "data (coordinators degraded_world 0) = snapshot_missing_temperature"
  by (simp add: degraded_world_def installation_def)

lemma current_sensor_simps:
  "entity_description current_sensor = SENSORS ! 2"
  "coordinator current_sensor = 0"
  "key (SENSORS ! 2) = ''current''"
  "cls (SENSORS ! 2) = CurrentSensorEntityDescription"
  "SENSORS ! 2 \<in> set SENSORS"
  by (simp_all add: current_sensor_def garage_sensor_def SENSORS_def)

lemma find_map_option:
  "find P (map f xs) = map_option f (find (\<lambda>x. P (f x)) xs)"
  by (induction xs) simp_all

lemma scenario_world_eq:
  "scenario_world = Inr (step (add_entities (map garage_sensor SENSORS) installation)
                          (Refresh 0 scenario_snapshot))"
  by (simp add: scenario_world_def setup_a_eq)

subsection \<open>Claims about extraction\<close>

text \<open>
  Counterexample to C1 as stated. The claim says that a snapshot which lacks the field
  of a description makes the extraction return \<^verbatim>\<open>None\<close> without raising. On the
  scenario snapshot with the attribute \<^verbatim>\<open>temperature\<close> removed,
  \<^verbatim>\<open>float(data.temperature)\<close> raises \<^verbatim>\<open>AttributeError\<close>: the extraction of the
  temperature description does not return \<^verbatim>\<open>None\<close>, and neither does the value read of
  the temperature entity of a charger whose coordinator holds that snapshot.
\<close>

theorem missing_temperature_raises:
  "snapshot_missing_temperature ''temperature'' = None \<and>
   get_native_value TemperatureSensorEntityDescription snapshot_missing_temperature
     = Inl AttributeError \<and>
   get_native_value TemperatureSensorEntityDescription snapshot_missing_temperature
     \<noteq> Inr NoneV \<and>
   fst (native_value degraded_world temperature_sensor) = Inl AttributeError"
  by (simp add: snapshot_missing_temperature_def getattr_def native_value_def
        temperature_sensor_simps degraded_world_data)

text \<open>
  C1, amended: for every description of the registry, if the current snapshot lacks the
  attribute named by the key of the description, then the extraction, and with it the
  value read of an entity bound to the description, raises \<^verbatim>\<open>AttributeError\<close>; the
  state is left as it was.
\<close>

theorem missing_field_raises:
  assumes "entity_description self \<in> set SENSORS"
    and "data (coordinators w (coordinator self)) (key (entity_description self)) = None"
  shows "get_native_value (cls (entity_description self))
           (data (coordinators w (coordinator self))) = Inl AttributeError
         \<and> native_value w self = (Inl AttributeError, w)"
  using absent_attribute_raises
          [of "entity_description self" "data (coordinators w (coordinator self))"] assms
  by (simp add: native_value_def)

text \<open>
  The amended C1 at the temperature entity of the first charger, after a refresh with the
  snapshot that lacks the temperature.
\<close>

theorem missing_field_raises_witness:
  "entity_description temperature_sensor \<in> set SENSORS \<and>
   data (coordinators degraded_world (coordinator temperature_sensor))
     (key (entity_description temperature_sensor)) = None \<and>
   native_value degraded_world temperature_sensor = (Inl AttributeError, degraded_world)"
proof -
  have h1: "entity_description temperature_sensor \<in> set SENSORS"
    by (simp add: temperature_sensor_simps)
  have h2: "data (coordinators degraded_world (coordinator temperature_sensor))
     (key (entity_description temperature_sensor)) = None"
    by (simp add: temperature_sensor_simps degraded_world_data snapshot_missing_temperature_def)
  from missing_field_raises [OF h1 h2] h1 h2 show ?thesis by simp
qed

text \<open>
  C2: for every description of the registry and every fully populated snapshot, the
  value read of an entity bound to the description returns a value, and its type is the
  one the class annotates and the one the specification declares for the key: a string
  for \<^verbatim>\<open>charger_state\<close>, an integer for \<^verbatim>\<open>charging_time\<close>, \<^verbatim>\<open>total_charged_energy\<close> and
  \<^verbatim>\<open>install_current\<close>, a float for the five others.
\<close>

theorem native_value_declared_type:
  assumes "entity_description self \<in> set SENSORS"
    and "fully_populated (data (coordinators w (coordinator self)))"
  shows "\<exists>v. native_value w self = (Inr v, w) \<and>
     type_of v \<in> set (return_annotation (cls (entity_description self))) \<and>
     spec_declared_type (key (entity_description self)) = Some (type_of v)"
  using populated_extraction [OF assms] by (auto simp: native_value_def)

text \<open>C2 at the current entity of the first charger: the value read is a float.\<close>

theorem native_value_declared_type_witness:
  "entity_description current_sensor \<in> set SENSORS \<and>
   fully_populated (data (coordinators installation (coordinator current_sensor))) \<and>
   (\<exists>v. native_value installation current_sensor = (Inr v, installation) \<and>
     type_of v \<in> set (return_annotation CurrentSensorEntityDescription) \<and>
     spec_declared_type ''current'' = Some (type_of v))"
proof -
  have h1: "entity_description current_sensor \<in> set SENSORS"
    by (simp add: current_sensor_simps)
  have h2: "fully_populated (data (coordinators installation (coordinator current_sensor)))"
    by (simp add: current_sensor_simps installation_0 first_populated)
  from native_value_declared_type [OF h1 h2] h1 h2 show ?thesis
    by (simp add: current_sensor_simps)
qed

text \<open>
  C3: for every description of the registry, the extraction is the coercion, to the type
  declared for the key, of the single attribute the key names; on a fully populated
  snapshot the coercion changes nothing, so the value returned is the content of that
  attribute as it stands: nothing is validated, clamped or derived.
\<close>

theorem extraction_is_direct_coercion:
  assumes "d \<in> set SENSORS"
  shows "(\<exists>t. spec_declared_type (key d) = Some t \<and>
            get_native_value (cls d) s = bindE (getattr s (key d)) (coerce t)) \<and>
         (fully_populated s \<longrightarrow>
            (\<exists>v. get_native_value (cls d) s = Inr v \<and>
                  Option.bind (s (key d)) payload = Some v))"
proof
  from extraction_coerces [OF assms, of s]
  show "\<exists>t. spec_declared_type (key d) = Some t \<and>
            get_native_value (cls d) s = bindE (getattr s (key d)) (coerce t)"
    by blast
next
  show "fully_populated s \<longrightarrow>
            (\<exists>v. get_native_value (cls d) s = Inr v \<and>
                  Option.bind (s (key d)) payload = Some v)"
  proof
    assume "fully_populated s"
    from populated_extraction [OF assms this]
    show "\<exists>v. get_native_value (cls d) s = Inr v \<and>
                  Option.bind (s (key d)) payload = Some v"
      by blast
  qed
qed

text \<open>
  C3 at the first description of the registry and the snapshot of the scenario: the
  charger state is read as the string it holds.
\<close>

theorem extraction_is_direct_coercion_witness:
  "SENSORS ! 0 \<in> set SENSORS \<and> fully_populated scenario_snapshot \<and>
   key (SENSORS ! 0) = ''charger_state'' \<and>
   get_native_value (cls (SENSORS ! 0)) scenario_snapshot
     = bindE (getattr scenario_snapshot ''charger_state'') (coerce TStr) \<and>
   get_native_value (cls (SENSORS ! 0)) scenario_snapshot = Inr (StrV ''charging'')"
proof -
  have h1: "SENSORS ! 0 \<in> set SENSORS" by (simp add: SENSORS_def)
  have k: "key (SENSORS ! 0) = ''charger_state''" by (simp add: SENSORS_def)
  have t: "spec_declared_type ''charger_state'' = Some TStr"
    by (simp add: spec_declared_type_def)
  have v: "scenario_snapshot ''charger_state'' = Some (PStr ''charging'' None None)"
    by (simp add: scenario_snapshot_def)
  from extraction_is_direct_coercion [OF h1, of scenario_snapshot] scenario_populated h1 k
  show ?thesis by (auto simp: t v)
qed

text \<open>
  C4: on the snapshot of the scenario the extraction of the charging time returns the
  integer 3600, that of the current the float 16.0, and that of the total charged energy
  the integer 102; and so do the three entities of a charger that has been set up and
  whose coordinator has then been refreshed with that snapshot.
\<close>

theorem scenario_readings:
  "get_native_value ChargingTimeSensorEntityDescription scenario_snapshot = Inr (IntV 3600) \<and>
   get_native_value CurrentSensorEntityDescription scenario_snapshot
     = Inr (FloatV (Finite 16)) \<and>
   get_native_value TotalChargedEnergySensorEntityDescription scenario_snapshot
     = Inr (IntV 102) \<and>
   (\<exists>w. scenario_world = Inr w \<and>
     read_sensor w ''charging_time'' = Some (Inr (IntV 3600)) \<and>
     read_sensor w ''current'' = Some (Inr (FloatV (Finite 16))) \<and>
     read_sensor w ''total_charged_energy'' = Some (Inr (IntV 102)))"
proof -
  define w where
    "w = step (add_entities (map garage_sensor SENSORS) installation)
           (Refresh 0 scenario_snapshot)"
  have s: "sensors w = map garage_sensor SENSORS"
    by (simp add: w_def add_entities_def installation_def)
  have d: "data (coordinators w 0) = scenario_snapshot"
    by (simp add: w_def add_entities_def)
  have g1: "get_native_value ChargingTimeSensorEntityDescription scenario_snapshot
              = Inr (IntV 3600)"
    by (simp add: scenario_snapshot_def getattr_def)
  have g2: "get_native_value CurrentSensorEntityDescription scenario_snapshot
              = Inr (FloatV (Finite 16))"
    by (simp add: scenario_snapshot_def getattr_def)
  have g3: "get_native_value TotalChargedEnergySensorEntityDescription scenario_snapshot
              = Inr (IntV 102)"
    by (simp add: scenario_snapshot_def getattr_def)
  have f: "sensor_for w k = map_option garage_sensor (find (\<lambda>d. key d = k) SENSORS)" for k
    unfolding sensor_for_def s by (simp add: find_map_option garage_sensor_def)
  have n: "fst (native_value w (garage_sensor x)) = get_native_value (cls x) scenario_snapshot"
    for x
    unfolding native_value_def by (simp add: garage_sensor_def d)
  have r: "read_sensor w k =
        map_option (\<lambda>x. get_native_value (cls x) scenario_snapshot)
          (find (\<lambda>d. key d = k) SENSORS)" for k
    unfolding read_sensor_def f by (simp add: option.map_comp comp_def n)
  have r1: "read_sensor w ''charging_time'' = Some (Inr (IntV 3600))"
    unfolding r by (simp add: SENSORS_def g1 del: get_native_value.simps)
  have r2: "read_sensor w ''current'' = Some (Inr (FloatV (Finite 16)))"
    unfolding r by (simp add: SENSORS_def g2 del: get_native_value.simps)
  have r3: "read_sensor w ''total_charged_energy'' = Some (Inr (IntV 102))"
    unfolding r by (simp add: SENSORS_def g3 del: get_native_value.simps)
  from scenario_world_eq have "scenario_world = Inr w" by (simp only: w_def)
  with g1 g2 g3 r1 r2 r3 show ?thesis by blast
qed

subsection \<open>Auxiliary facts for the claims below\<close>

lemma list_all2_right:
  "list_all2 P xs ys \<Longrightarrow> y \<in> set ys \<Longrightarrow> \<exists>x \<in> set xs. P x y"
  by (induction rule: list_all2_induct) auto

lemma garage_sensor_init:
  "LektricoSensor_init ''lektrico'' installation d 0 (PStr ''Garage'' None None)
     = Inr (garage_sensor d)"
  using init_ok [of installation 0 "PStr ''1.4.4'' None None" "''lektrico''" d
                   "PStr ''Garage'' None None"]
  by (simp add: installation_0 first_snapshot_fw garage_sensor_def)

subsection \<open>Claims about identity\<close>

text \<open>
  C5: an entity constructed from a coordinator and a description has as unique
  identifier the serial number of the device, an underscore, and the key of the
  description.
\<close>

theorem unique_id_format:
  assumes "LektricoSensor_init DOMAIN w d c friendly_name = Inr self"
  shows "attr_unique_id self = serial_number (coordinators w c) @ ''_'' @ key d"
  using init_Inr [OF assms] by auto

text \<open>
  C5 at the first charger and the charging time description: the identifier is
  \<^verbatim>\<open>AAA111_charging_time\<close>.
\<close>

theorem unique_id_format_witness:
  "LektricoSensor_init ''lektrico'' installation (SENSORS ! 1) 0 (PStr ''Garage'' None None)
     = Inr charging_time_sensor \<and>
   attr_unique_id charging_time_sensor = ''AAA111_charging_time'' \<and>
   serial_number (coordinators installation 0) = ''AAA111'' \<and>
   key (SENSORS ! 1) = ''charging_time''"
proof -
  have h: "LektricoSensor_init ''lektrico'' installation (SENSORS ! 1) 0
             (PStr ''Garage'' None None) = Inr charging_time_sensor"
    by (simp add: garage_sensor_init charging_time_sensor_def)
  have k: "key (SENSORS ! 1) = ''charging_time''" by (simp add: SENSORS_def)
  from unique_id_format [OF h] h k show ?thesis
    by (simp add: installation_0)
qed

text \<open>
  C6: two distinct descriptions of the registry, constructed for the same device, give
  entities with different unique identifiers; and setting up the chargers \<^verbatim>\<open>AAA111\<close>
  and \<^verbatim>\<open>BBB222\<close>, each with the nine descriptions of the registry, registers eighteen
  entities whose unique identifiers are pairwise distinct.
\<close>

theorem unique_ids_distinct:
  assumes "d1 \<in> set SENSORS" and "d2 \<in> set SENSORS" and "d1 \<noteq> d2"
    and "LektricoSensor_init DOMAIN w d1 c n1 = Inr e1"
    and "LektricoSensor_init DOMAIN w d2 c n2 = Inr e2"
  shows "attr_unique_id e1 \<noteq> attr_unique_id e2 \<and>
     (\<exists>w'. setup_both = Inr w' \<and> length (sensors w') = 18 \<and>
           distinct (map attr_unique_id (sensors w')))"
proof
  from init_Inr [OF assms(4)]
  have u1: "attr_unique_id e1 = serial_number (coordinators w c) @ ''_'' @ key d1" by auto
  from init_Inr [OF assms(5)]
  have u2: "attr_unique_id e2 = serial_number (coordinators w c) @ ''_'' @ key d2" by auto
  from key_inj [OF assms(1,2)] assms(3) have "key d1 \<noteq> key d2" by blast
  with u1 u2 show "attr_unique_id e1 \<noteq> attr_unique_id e2" by simp
next
  let ?w = "add_entities (map carport_sensor SENSORS)
              (add_entities (map garage_sensor SENSORS) installation)"
  have ids: "map attr_unique_id (sensors ?w) =
     map (\<lambda>d. ''AAA111_'' @ key d) SENSORS @ map (\<lambda>d. ''BBB222_'' @ key d) SENSORS"
    by (simp add: add_entities_def installation_def garage_sensor_def carport_sensor_def
          comp_def)
  have "length (sensors ?w) = 18"
    by (simp add: add_entities_def installation_def SENSORS_def)
  moreover have "distinct (map attr_unique_id (sensors ?w))"
    unfolding ids by (simp add: SENSORS_def)
  ultimately show "\<exists>w'. setup_both = Inr w' \<and> length (sensors w') = 18 \<and>
           distinct (map attr_unique_id (sensors w'))"
    using setup_both_eq by blast
qed

text \<open>
  C6 at the current and the install current descriptions on the first charger: the
  identifiers \<^verbatim>\<open>AAA111_current\<close> and \<^verbatim>\<open>AAA111_install_current\<close> differ.
\<close>

theorem unique_ids_distinct_witness:
  "SENSORS ! 2 \<in> set SENSORS \<and> SENSORS ! 8 \<in> set SENSORS \<and> SENSORS ! 2 \<noteq> SENSORS ! 8 \<and>
   LektricoSensor_init ''lektrico'' installation (SENSORS ! 2) 0 (PStr ''Garage'' None None)
     = Inr (garage_sensor (SENSORS ! 2)) \<and>
   LektricoSensor_init ''lektrico'' installation (SENSORS ! 8) 0 (PStr ''Garage'' None None)
     = Inr (garage_sensor (SENSORS ! 8)) \<and>
   attr_unique_id (garage_sensor (SENSORS ! 2)) \<noteq> attr_unique_id (garage_sensor (SENSORS ! 8))"
proof -
  have h1: "SENSORS ! 2 \<in> set SENSORS" by (simp add: SENSORS_def)
  have h2: "SENSORS ! 8 \<in> set SENSORS" by (simp add: SENSORS_def)
  have h3: "SENSORS ! 2 \<noteq> SENSORS ! 8" by (simp add: SENSORS_def)
  note h4 = garage_sensor_init [of "SENSORS ! 2"]
  note h5 = garage_sensor_init [of "SENSORS ! 8"]
  from unique_ids_distinct [OF h1 h2 h3 h4 h5] h1 h2 h3 h4 h5 show ?thesis by blast
qed

subsection \<open>Claims about reads, set-up and refreshes\<close>

text \<open>
  C7: two successive value reads of an entity, with the snapshot unchanged between
  them, return the same result, and neither changes the state; the result depends on
  nothing but the description of the entity and the snapshot its coordinator holds, so
  that no other attribute of the entity and no other part of the state has a part in it.
\<close>

theorem native_value_deterministic:
  "(case native_value w self of (r1, w1) \<Rightarrow>
      case native_value w1 self of (r2, w2) \<Rightarrow> r1 = r2 \<and> w1 = w \<and> w2 = w) \<and>
   (entity_description self' = entity_description self \<and>
    data (coordinators w' (coordinator self')) = data (coordinators w (coordinator self))
    \<longrightarrow> fst (native_value w' self') = fst (native_value w self))"
  by (simp add: native_value_def)

text \<open>
  C7 at the temperature entities of the two chargers, the second read made after other
  entities were registered: both chargers hold the same snapshot, and both reads give
  the float 34.5.
\<close>

theorem native_value_deterministic_witness:
  "entity_description (carport_sensor (SENSORS ! 5)) = entity_description temperature_sensor \<and>
   data (coordinators (add_entities [current_sensor] installation)
           (coordinator (carport_sensor (SENSORS ! 5))))
     = data (coordinators installation (coordinator temperature_sensor)) \<and>
   fst (native_value (add_entities [current_sensor] installation) (carport_sensor (SENSORS ! 5)))
     = fst (native_value installation temperature_sensor) \<and>
   native_value installation temperature_sensor = (Inr (FloatV (Finite 34.5)), installation)"
proof -
  have h1: "entity_description (carport_sensor (SENSORS ! 5))
              = entity_description temperature_sensor"
    by (simp add: carport_sensor_def temperature_sensor_def garage_sensor_def)
  have h2: "data (coordinators (add_entities [current_sensor] installation)
           (coordinator (carport_sensor (SENSORS ! 5))))
     = data (coordinators installation (coordinator temperature_sensor))"
    by (simp add: carport_sensor_def temperature_sensor_simps add_entities_def
          installation_0 installation_1)
  have v: "native_value installation temperature_sensor
             = (Inr (FloatV (Finite 34.5)), installation)"
    by (simp add: native_value_def temperature_sensor_simps installation_0
          first_snapshot_def scenario_snapshot_def getattr_def)
  from native_value_deterministic
         [of installation temperature_sensor "carport_sensor (SENSORS ! 5)"
             "add_entities [current_sensor] installation"] h1 h2 v
  show ?thesis by simp
qed



text \<open>
  C9: the device metadata of an entity, the firmware version included, is computed at
  construction from the snapshot the coordinator holds at that moment; whatever refreshes
  and reads follow, the registered entity stays as constructed, so that its unique
  identifier and its device metadata (identifiers, model, name, manufacturer, firmware
  version) never change.
\<close>

theorem device_info_frozen:
  assumes "LektricoSensor_init DOMAIN w d c friendly_name = Inr self"
  shows "data (coordinators w c) ''fw_version'' = Some (sw_version (attr_device_info self)) \<and>
     attr_device_info self =
       \<lparr>identifiers = {(DOMAIN, serial_number (coordinators w c))},
        model = ''1P7K '' @ serial_number (coordinators w c) @ '' rev.''
                  @ board_revision (coordinators w c),
        device_name = friendly_name,
        manufacturer = ''Lektrico'',
        sw_version = sw_version (attr_device_info self)\<rparr> \<and>
     sensors (run (add_entities [self] w) evs) = sensors w @ [self] \<and>
     attr_unique_id (last (sensors (run (add_entities [self] w) evs))) = attr_unique_id self \<and>
     attr_device_info (last (sensors (run (add_entities [self] w) evs)))
       = attr_device_info self"
proof -
  from init_Inr [OF assms] obtain fw where
    fw: "data (coordinators w c) ''fw_version'' = Some fw" and
    self: "self = \<lparr>entity_description = d, coordinator = c,
          attr_unique_id = serial_number (coordinators w c) @ ''_'' @ key d,
          attr_device_info =
            \<lparr>identifiers = {(DOMAIN, serial_number (coordinators w c))},
             model = ''1P7K '' @ serial_number (coordinators w c) @ '' rev.''
                       @ board_revision (coordinators w c),
             device_name = friendly_name,
             manufacturer = ''Lektrico'',
             sw_version = fw\<rparr>\<rparr>"
    by blast
  have s: "sensors (run (add_entities [self] w) evs) = sensors w @ [self]"
    by (simp add: run_sensors add_entities_def)
  from fw self show ?thesis
    unfolding s by simp
qed

text \<open>
  C9 at the temperature entity of the first charger: it is constructed while the
  snapshot carries the firmware version 1.4.4; after a refresh with a snapshot that
  carries 1.5.0 and a read, the snapshot has the new version and the entity still has
  the old one.
\<close>

theorem device_info_frozen_witness:
  "LektricoSensor_init ''lektrico'' installation (SENSORS ! 5) 0 (PStr ''Garage'' None None)
     = Inr temperature_sensor \<and>
   sensors upgraded_world = [temperature_sensor] \<and>
   sw_version (attr_device_info (last (sensors upgraded_world))) = PStr ''1.4.4'' None None \<and>
   data (coordinators upgraded_world 0) ''fw_version'' = Some (PStr ''1.5.0'' None None)"
proof -
  have h: "LektricoSensor_init ''lektrico'' installation (SENSORS ! 5) 0
             (PStr ''Garage'' None None) = Inr temperature_sensor"
    by (simp add: garage_sensor_init temperature_sensor_def)
  have e: "sensors installation = []"
    by (simp add: installation_def)
  have v: "sw_version (attr_device_info temperature_sensor) = PStr ''1.4.4'' None None"
    by (simp add: temperature_sensor_def garage_sensor_def)
  have u: "data (coordinators upgraded_world 0) ''fw_version''
             = Some (PStr ''1.5.0'' None None)"
    by (simp add: upgraded_world_def add_entities_def native_value_def upgraded_snapshot_def)
  from device_info_frozen [OF h, of "[Refresh 0 upgraded_snapshot, Read 0]"] h e v u
  show ?thesis
    by (simp add: upgraded_world_def)
qed

text \<open>
  C10: the extraction of the base description class returns \<^verbatim>\<open>None\<close> on every
  snapshot, so an entity whose description is of the base class always reads \<^verbatim>\<open>None\<close>;
  the classes for the dynamic current and the maximal LED brightness are the class of no
  entry of the registry, and no entity that the set-up hands to the registration
  callback has a description of either class.
\<close>

theorem base_extraction_and_unregistered_classes:
  "get_native_value LektricoSensorEntityDescription s = Inr NoneV \<and>
   (cls (entity_description self) = LektricoSensorEntityDescription \<longrightarrow>
      native_value w self = (Inr NoneV, w)) \<and>
   DynamicCurrentSensorEntityDescription \<notin> cls ` set SENSORS \<and>
   LedMaxBrightnessSensorEntityDescription \<notin> cls ` set SENSORS \<and>
   (async_setup_entry DOMAIN CONF_FRIENDLY_NAME w0 hass entry async_add_entities = Inr w' \<longrightarrow>
      (\<exists>entities. w' = async_add_entities entities w0 \<and>
         (\<forall>e \<in> set entities.
            cls (entity_description e) \<noteq> DynamicCurrentSensorEntityDescription \<and>
            cls (entity_description e) \<noteq> LedMaxBrightnessSensorEntityDescription)))"
proof (intro conjI impI)
  show "get_native_value LektricoSensorEntityDescription s = Inr NoneV" by simp
next
  assume "cls (entity_description self) = LektricoSensorEntityDescription"
  then show "native_value w self = (Inr NoneV, w)" by (simp add: native_value_def)
next
  show "DynamicCurrentSensorEntityDescription \<notin> cls ` set SENSORS"
    by (simp add: SENSORS_def)
next
  show "LedMaxBrightnessSensorEntityDescription \<notin> cls ` set SENSORS"
    by (simp add: SENSORS_def)
next
  assume "async_setup_entry DOMAIN CONF_FRIENDLY_NAME w0 hass entry async_add_entities = Inr w'"
  from setup_Inr [OF this] obtain c friendly_name entities where
    l: "list_all2 (\<lambda>d e. LektricoSensor_init DOMAIN w0 d c friendly_name = Inr e)
          SENSORS entities"
    and w': "w' = async_add_entities entities w0"
    by blast
  have "cls (entity_description e) \<noteq> DynamicCurrentSensorEntityDescription \<and>
        cls (entity_description e) \<noteq> LedMaxBrightnessSensorEntityDescription"
    if "e \<in> set entities" for e
  proof -
    from list_all2_right [OF l that] obtain d where d: "d \<in> set SENSORS"
      and i: "LektricoSensor_init DOMAIN w0 d c friendly_name = Inr e"
      by blast
    from init_Inr [OF i] have "entity_description e = d" by auto
    with d show ?thesis
      by (auto elim: set_SENSORS_cases)
  qed
  with w' show "\<exists>entities. w' = async_add_entities entities w0 \<and>
         (\<forall>e \<in> set entities.
            cls (entity_description e) \<noteq> DynamicCurrentSensorEntityDescription \<and>
            cls (entity_description e) \<noteq> LedMaxBrightnessSensorEntityDescription)"
    by blast
qed

text \<open>
  C10 at an entity of the first charger whose description is of the base class, and at
  the set-up of the first charger.
\<close>

theorem base_extraction_and_unregistered_classes_witness:
  "cls (entity_description generic_sensor) = LektricoSensorEntityDescription \<and>
   native_value installation generic_sensor = (Inr NoneV, installation) \<and>
   async_setup_entry ''lektrico'' ''friendly_name'' installation home entry_a add_entities
     = Inr (add_entities (map garage_sensor SENSORS) installation) \<and>
   (\<exists>entities. add_entities (map garage_sensor SENSORS) installation
        = add_entities entities installation \<and>
      (\<forall>e \<in> set entities.
         cls (entity_description e) \<noteq> DynamicCurrentSensorEntityDescription \<and>
         cls (entity_description e) \<noteq> LedMaxBrightnessSensorEntityDescription))"
proof -
  have h1: "cls (entity_description generic_sensor) = LektricoSensorEntityDescription"
    by (simp add: generic_sensor_def garage_sensor_def)
  have h2: "async_setup_entry ''lektrico'' ''friendly_name'' installation home entry_a
              add_entities = Inr (add_entities (map garage_sensor SENSORS) installation)"
    using setup_a_eq by (simp only: setup_a_def)
  note r = base_extraction_and_unregistered_classes
             [of scenario_snapshot generic_sensor installation "''lektrico''"
                 "''friendly_name''" installation home entry_a add_entities
                 "add_entities (map garage_sensor SENSORS) installation"]
  from r h1 have a: "native_value installation generic_sensor = (Inr NoneV, installation)"
    by (elim conjE) (rule mp)
  from r h2 have b: "\<exists>entities. add_entities (map garage_sensor SENSORS) installation
        = add_entities entities installation \<and>
      (\<forall>e \<in> set entities.
         cls (entity_description e) \<noteq> DynamicCurrentSensorEntityDescription \<and>
         cls (entity_description e) \<noteq> LedMaxBrightnessSensorEntityDescription)"
    by (elim conjE) (rule mp)
  show ?thesis
    by (intro conjI h1 h2 a b)
qed

subsection \<open>Set-up on a snapshot without a firmware version\<close>

text \<open>
  Without a firmware version in the snapshot of the coordinator the construction of the
  first entity raises, and the set-up registers nothing.
\<close>

lemma setup_without_firmware_raises:
  assumes "hass_data hass DOMAIN = Some m" and "m (entry_id entry) = Some c"
    and "entry_data entry CONF_FRIENDLY_NAME = Some friendly_name"
    and "data (coordinators w c) ''fw_version'' = None"
  shows "async_setup_entry DOMAIN CONF_FRIENDLY_NAME w hass entry async_add_entities
           = Inl AttributeError"
proof -
  have "mapME (\<lambda>description.
          bindE (getitem (entry_data entry) CONF_FRIENDLY_NAME) (\<lambda>friendly_name.
            LektricoSensor_init DOMAIN w description c friendly_name)) SENSORS
        = mapME (\<lambda>description. Inl AttributeError) SENSORS"
    by (simp add: getitem_def assms(3,4) LektricoSensor_init_def getattr_def)
  also have "\<dots> = Inl AttributeError"
    by (rule mapME_raises) (simp add: SENSORS_def)
  finally show ?thesis
    by (simp add: async_setup_entry_def getitem_def assms(1,2))
qed

end
